theory Spec2Isabelle
  imports Main "HOL-Library.Word" "HOL-Library.AList"
begin

section \<open>The Dragonfly server: admission, registry and shutdown\<close>

text \<open>
  A shallow embedding of the Go type \<open>Server\<close> of package \<open>dragonfly\<close> and of its
  methods. The server's collaborators (the gophertunnel listener and connections, the
  world, sessions, the skin package, logrus, uuid, base64, mgl32) are not part of the
  file: what they return is supplied by an environment record, and every call the
  server makes on them is appended to an effect log kept beside the server's fields.
  Goroutines are modelled by their bodies: \<open>go f(x)\<close> logs the spawn, and the body
  \<open>f\<close> is a function of its own that is applied when the goroutine is scheduled.
\<close>

subsection \<open>Values\<close>

type_synonym uuid = "128 word"
type_synonym bytes = "8 word list"

text \<open>A \<open>float32\<close> and a \<open>float64\<close> are their IEEE-754 bit patterns; their arithmetic
  belongs to the environment.\<close>

type_synonym float32 = "32 word"
type_synonym float64 = "64 word"

type_synonym BlockPos = "int \<times> int \<times> int"
type_synonym Vec3 = "float32 \<times> float32 \<times> float32"

text \<open>The configuration fields the server reads: \<open>c.Network.Address\<close>,
  \<open>c.Server.Name\<close>, \<open>c.Server.MaximumPlayers\<close>, \<open>c.Server.ShutdownMessage\<close>,
  \<open>c.World.Name\<close>, \<open>c.World.Folder\<close> and \<open>c.World.MaximumChunkRadius\<close>.\<close>

record Config =
  Network_Address :: string
  Server_Name :: string
  Server_MaximumPlayers :: int
  Server_ShutdownMessage :: string
  World_Name :: string
  World_Folder :: string
  World_MaximumChunkRadius :: int

datatype Logger = Logger nat

datatype level = DebugLevel | InfoLevel | WarnLevel | ErrorLevel

subsection \<open>Skins\<close>

type_synonym AnimationType = int

text \<open>Modelled from the spec: the skin package is not in the file. An animation entry
  holds a pixel buffer, width, height, frame count and variant tag; a skin holds a pixel
  buffer, geometry/model bytes, the derived model configuration and the ordered sequence
  of its animations.\<close>

record Animation =
  anim_w :: int
  anim_h :: int
  anim_type :: AnimationType
  FrameCount :: int
  anim_Pix :: bytes

datatype ModelConfig = ModelConfig string

record Skin =
  skin_w :: int
  skin_h :: int
  Pix :: bytes
  Model :: bytes
  ModelConfig_of :: ModelConfig
  Animations :: "Animation list"

text \<open>One element of \<open>login.ClientData.AnimatedImageData\<close>, and the fields of
  \<open>login.ClientData\<close> that \<open>createSkin\<close> reads.\<close>

record SkinAnimation =
  Image :: string
  ImageWidth :: int
  ImageHeight :: int
  Type :: int
  Frames :: float64

record ClientData =
  SkinData :: string
  SkinGeometry :: string
  SkinResourcePatch :: string
  SkinImageWidth :: int
  SkinImageHeight :: int
  AnimatedImageData :: "SkinAnimation list"

text \<open>What \<open>createSkin\<close> takes from other packages: the base64 decoder (its error is
  dropped by the caller), the skin constructors, the conversion \<open>int(f)\<close> of a
  \<open>float64\<close>, and the two families of animation constants.\<close>

record skin_env =
  base64_DecodeString :: "string \<Rightarrow> bytes"
  skin_DecodeModelConfig :: "bytes \<Rightarrow> ModelConfig"
  skin_New :: "int \<Rightarrow> int \<Rightarrow> Skin"
  skin_NewAnimation :: "int \<Rightarrow> int \<Rightarrow> AnimationType \<Rightarrow> Animation"
  int_of_float64 :: "float64 \<Rightarrow> int"
  protocol_SkinAnimationHead :: int
  protocol_SkinAnimationBody32x32 :: int
  protocol_SkinAnimationBody128x128 :: int
  skin_AnimationHead :: AnimationType
  skin_AnimationBody32x32 :: AnimationType
  skin_AnimationBody128x128 :: AnimationType

text \<open>The \<open>switch\<close> of \<open>createSkin\<close>: \<open>var t skin.AnimationType\<close> starts as the zero
  value and the first matching case assigns it.\<close>

definition animationType :: "skin_env \<Rightarrow> int \<Rightarrow> AnimationType" where
  "animationType se tag =
     (if tag = protocol_SkinAnimationHead se then skin_AnimationHead se
      else if tag = protocol_SkinAnimationBody32x32 se then skin_AnimationBody32x32 se
      else if tag = protocol_SkinAnimationBody128x128 se then skin_AnimationBody128x128 se
      else 0)"

text \<open>The body of the loop over \<open>data.AnimatedImageData\<close>, up to the append.\<close>

definition createAnimation :: "skin_env \<Rightarrow> SkinAnimation \<Rightarrow> Animation" where
  "createAnimation se animation =
     (let t = animationType se (Type animation);
          anim = skin_NewAnimation se (ImageWidth animation) (ImageHeight animation) t
      in anim\<lparr>FrameCount := int_of_float64 se (Frames animation),
              anim_Pix := base64_DecodeString se (Image animation)\<rparr>)"

fun appendAnimations :: "skin_env \<Rightarrow> SkinAnimation list \<Rightarrow> Skin \<Rightarrow> Skin" where
  "appendAnimations se [] playerSkin = playerSkin"
| "appendAnimations se (animation # rest) playerSkin =
     appendAnimations se rest
       (playerSkin\<lparr>Animations := Animations playerSkin @ [createAnimation se animation]\<rparr>)"

definition createSkin :: "skin_env \<Rightarrow> ClientData \<Rightarrow> Skin" where
  "createSkin se data =
     (let skinData = base64_DecodeString se (SkinData data);
          modelData = base64_DecodeString se (SkinGeometry data);
          skinResourcePatch = base64_DecodeString se (SkinResourcePatch data);
          modelConfig = skin_DecodeModelConfig se skinResourcePatch;
          playerSkin = skin_New se (SkinImageWidth data) (SkinImageHeight data);
          playerSkin = playerSkin\<lparr>Pix := skinData\<rparr>;
          playerSkin = playerSkin\<lparr>Model := modelData\<rparr>;
          playerSkin = playerSkin\<lparr>ModelConfig_of := modelConfig\<rparr>
      in appendAnimations se (AnimatedImageData data) playerSkin)"

subsection \<open>Connections, sessions and players\<close>

text \<open>What the server reads from a \<open>*minecraft.Conn\<close>: its remote address, the identity
  data of the login (\<open>Identity\<close>, \<open>DisplayName\<close>, \<open>XUID\<close>) and the client data.\<close>

record Conn =
  RemoteAddr :: string
  Identity :: string
  DisplayName :: string
  XUID :: string
  ClientData_of :: ClientData

text \<open>Modelled from the spec: the session and player packages are not in the file. A
  session is built by \<open>New(connection, chunkRadius, logger)\<close>; a player holds its identity
  (128-bit identifier, display name, secondary auth id), its skin, its session and its
  spawn position, as \<open>player.NewWithSession\<close> receives them.\<close>

record Session =
  session_conn :: Conn
  session_radius :: int
  session_log :: Logger

definition session_New :: "Conn \<Rightarrow> int \<Rightarrow> Logger \<Rightarrow> Session" where
  "session_New conn radius lg =
     \<lparr>session_conn = conn, session_radius = radius, session_log = lg\<rparr>"

record Player =
  player_name :: string
  player_xuid :: string
  player_uuid :: uuid
  player_skin :: Skin
  player_session :: Session
  player_pos :: Vec3

definition player_NewWithSession ::
  "string \<Rightarrow> string \<Rightarrow> uuid \<Rightarrow> Skin \<Rightarrow> Session \<Rightarrow> Vec3 \<Rightarrow> Player" where
  "player_NewWithSession name xuid uid sk sess pos =
     \<lparr>player_name = name, player_xuid = xuid, player_uuid = uid, player_skin = sk,
      player_session = sess, player_pos = pos\<rparr>"

definition UUID :: "Player \<Rightarrow> uuid" where
  "UUID pl = player_uuid pl"

subsection \<open>The world, the listener and the hand-off channel\<close>

datatype Provider = Provider string

record World =
  Spawn :: BlockPos
  Time :: int
  world_Name :: string
  world_provider :: "Provider option"

type_synonym BlockEntry = "int \<times> string \<times> (string \<times> string) list"

record GameData =
  WorldName :: string
  Blocks :: "BlockEntry list"
  PlayerPosition :: Vec3
  PlayerGameMode :: int
  EntityUniqueID :: int
  EntityRuntimeID :: int
  GameTime :: int

text \<open>The fields of \<open>minecraft.Listener\<close> that \<open>startListening\<close> sets, and the state of
  the listener as its contract describes it: whether it has been closed, and the raw
  connections that have arrived and have not been accepted yet.\<close>

record Listener =
  ErrorLog :: Logger
  ServerName :: string
  MaximumPlayers :: int
  lclosed :: bool
  incoming :: "Conn list"

text \<open>Modelled from the spec: \<open>Listener.Accept\<close> is gophertunnel's. It blocks (\<open>None\<close>)
  while no connection has arrived, yields the connections in their order of arrival, and
  returns its terminal error once the listener is closed, never a connection again.\<close>

definition listener_Accept :: "Listener \<Rightarrow> (string + Conn \<times> Listener) option" where
  "listener_Accept l =
     (if lclosed l then Some (Inl ''listener closed'')
      else case incoming l of
             [] \<Rightarrow> None
           | conn # rest \<Rightarrow> Some (Inr (conn, l\<lparr>incoming := rest\<rparr>)))"

text \<open>The channel \<open>players\<close> is unbuffered: a send waits for a receive. \<open>senders\<close> are
  the players whose \<open>handleConn\<close> goroutine waits in the send, oldest first. The three
  operations are Go's: a receive from a closed channel returns at once with
  \<open>ok = false\<close>, a receive from an open one takes the oldest waiting sender or blocks
  (\<open>None\<close>); a send on a closed channel panics; closing a closed channel panics, and
  closing a channel makes every waiting sender panic.\<close>

record chan =
  senders :: "Player list"
  chan_closed :: bool

definition chan_recv :: "chan \<Rightarrow> (Player option \<times> chan) option" where
  "chan_recv ch =
     (if chan_closed ch then Some (None, ch)
      else case senders ch of
             [] \<Rightarrow> None
           | pl # rest \<Rightarrow> Some (Some pl, ch\<lparr>senders := rest\<rparr>))"

definition chan_send :: "Player \<Rightarrow> chan \<Rightarrow> string + chan" where
  "chan_send pl ch =
     (if chan_closed ch then Inl ''send on closed channel''
      else Inr (ch\<lparr>senders := senders ch @ [pl]\<rparr>))"

definition chan_close :: "chan \<Rightarrow> string + chan" where
  "chan_close ch =
     (if chan_closed ch then Inl ''close of closed channel''
      else if senders ch \<noteq> [] then Inl ''send on closed channel''
      else Inr (ch\<lparr>chan_closed := True\<rparr>))"

subsection \<open>Effects and the server\<close>

datatype event =
    Log level string
  | Fatal string
  | WorldProvider Provider
  | WorldClose
  | ListenerListen string string
  | ListenerClose
  | ListenerDisconnect Conn string
  | ConnStartGame Conn GameData
  | ConnClose Conn
  | SessionStart Player
  | PlayerDisconnect Player string
  | Go_run
  | Go_handleConn Conn

text \<open>The struct \<open>Server\<close>. \<open>started\<close> is the \<open>uint32\<close> behind the pointer, \<open>p\<close> the map
  as the list of its entries with one entry for a key, and \<open>trace\<close> the calls made on
  the collaborators so far, oldest first. \<open>playerMutex\<close> has no field: every method
  releases it before it returns, and the model runs one method body at a time.\<close>

record Server =
  started :: "32 word"
  c :: Config
  log :: Logger
  listener :: "Listener option"
  world :: World
  players :: chan
  startTime :: int
  p :: "(uuid \<times> Player) list"
  trace :: "event list"

text \<open>How a call ends: it returns, it panics, the process exits (\<open>log.Fatalf\<close>), or
  the caller is left blocked.\<close>

datatype 'a outcome = Return 'a | Panic string | Exit | Block

text \<open>What the collaborators and libraries answer. An error is its message.\<close>

record env =
  skins :: skin_env
  DefaultConfig :: Config
  logrus_New :: Logger
  world_New :: "Logger \<Rightarrow> World"
  world_Provider :: "Provider \<Rightarrow> World \<Rightarrow> World"
  world_Close :: "World \<Rightarrow> string option"
  mcdb_New :: "string \<Rightarrow> string + Provider"
  listener_Listen :: "string \<Rightarrow> string \<Rightarrow> string option"
  listener_Close :: "Listener \<Rightarrow> string option"
  conn_StartGame :: "Conn \<Rightarrow> GameData \<Rightarrow> string option"
  uuid_Parse :: "string \<Rightarrow> string + uuid"
  text_Yellow :: "string \<Rightarrow> string"
  BlockPos_Vec3 :: "BlockPos \<Rightarrow> Vec3"
  Vec3_Add :: "Vec3 \<Rightarrow> Vec3 \<Rightarrow> Vec3"
  block_All :: "(string \<times> (string \<times> string) list) list"
  protocol_CurrentBlockVersion :: int

definition emit :: "event \<Rightarrow> Server \<Rightarrow> Server" where
  "emit e s = s\<lparr>trace := trace s @ [e]\<rparr>"

subsection \<open>Construction and queries\<close>

text \<open>\<open>New(c, log)\<close>. The two arguments are pointers: \<open>None\<close> is \<open>nil\<close>, a
  configuration pointer is an address of the caller's memory \<open>mem\<close>, and \<open>s.c = *c\<close>
  loads the value stored there.\<close>

definition New :: "env \<Rightarrow> (nat \<Rightarrow> Config) \<Rightarrow> nat option \<Rightarrow> Logger option \<Rightarrow> Server" where
  "New env mem c_ptr log_ptr =
     (let lg = (case log_ptr of None \<Rightarrow> logrus_New env | Some l \<Rightarrow> l);
          s = \<lparr>started = 0,
               c = DefaultConfig env,
               log = lg,
               listener = None,
               world = world_New env lg,
               players = \<lparr>senders = [], chan_closed = False\<rparr>,
               startTime = 0,
               p = [],
               trace = []\<rparr>
      in case c_ptr of None \<Rightarrow> s | Some a \<Rightarrow> s\<lparr>c := mem a\<rparr>)"

text \<open>An assignment \<open>*c = v\<close> by the caller, after the server was built: it changes the
  caller's memory, beside which the server lives.\<close>

definition caller_store :: "nat \<Rightarrow> Config \<Rightarrow> (nat \<Rightarrow> Config) \<times> Server \<Rightarrow> (nat \<Rightarrow> Config) \<times> Server" where
  "caller_store a v ms = ((fst ms)(a := v), snd ms)"

definition running :: "Server \<Rightarrow> bool" where
  "running s = (started s = 1)"

definition Accept :: "Server \<Rightarrow> (string + Player) outcome \<times> Server" where
  "Accept s =
     (case chan_recv (players s) of
        None \<Rightarrow> (Block, s)
      | Some (None, ch) \<Rightarrow> (Return (Inl ''server closed''), s\<lparr>players := ch\<rparr>)
      | Some (Some pl, ch) \<Rightarrow>
          (Return (Inr pl), s\<lparr>players := ch, p := AList.update (UUID pl) pl (p s)\<rparr>))"

definition Uptime :: "int \<Rightarrow> Server \<Rightarrow> int" where
  "Uptime now s = (if \<not> running s then 0 else now - startTime s)"

definition PlayerCount :: "Server \<Rightarrow> int" where
  "PlayerCount s = int (length (p s))"

definition MaxPlayerCount :: "Server \<Rightarrow> int" where
  "MaxPlayerCount s =
     (if Server_MaximumPlayers (c s) = 0 then PlayerCount s + 1
      else Server_MaximumPlayers (c s))"

definition Players :: "Server \<Rightarrow> Player list" where
  "Players s = map snd (p s)"

definition handleSessionClose :: "uuid \<Rightarrow> Server \<Rightarrow> Server" where
  "handleSessionClose uid s = s\<lparr>p := AList.delete uid (p s)\<rparr>"

subsection \<open>Handling a connection\<close>

definition blockEntries :: "env \<Rightarrow> BlockEntry list" where
  "blockEntries env =
     map (\<lambda>(name, properties). (protocol_CurrentBlockVersion env, name, properties))
       (block_All env)"

text \<open>The literal \<open>mgl32.Vec3{0.5, 0, 0.5}\<close>: \<open>0.5\<close> is \<open>0x3F000000\<close> as a
  \<open>float32\<close>, and \<open>0\<close> is \<open>0\<close>.\<close>

definition blockCentre :: Vec3 where
  "blockCentre = (0x3F000000, 0, 0x3F000000)"

definition gameData :: "env \<Rightarrow> Server \<Rightarrow> GameData" where
  "gameData env s =
     \<lparr>WorldName = World_Name (c s),
      Blocks = blockEntries env,
      PlayerPosition = Vec3_Add env (BlockPos_Vec3 env (Spawn (world s))) blockCentre,
      PlayerGameMode = 1,
      EntityUniqueID = 1,
      EntityRuntimeID = 1,
      GameTime = Time (world s)\<rparr>"

definition createPlayer :: "env \<Rightarrow> uuid \<Rightarrow> Conn \<Rightarrow> Server \<Rightarrow> Player \<times> Server" where
  "createPlayer env uid conn s =
     (let sess = session_New conn (World_MaximumChunkRadius (c s)) (log s);
          pl = player_NewWithSession (DisplayName conn) (XUID conn) uid
                 (createSkin (skins env) (ClientData_of conn)) sess
                 (Vec3_Add env (BlockPos_Vec3 env (Spawn (world s))) blockCentre)
      in (pl, emit (SessionStart pl) s))"

text \<open>\<open>handleConn\<close>, the body of the goroutine of one connection. A log line is its
  format string, without the arguments and without a newline at its end. The send that
  ends \<open>handleConn\<close> leaves the player waiting in the channel.\<close>

definition handleConn :: "env \<Rightarrow> Conn \<Rightarrow> Server \<Rightarrow> unit outcome \<times> Server" where
  "handleConn env conn s =
     (let data = gameData env s;
          s1 = emit (ConnStartGame conn data) s
      in case conn_StartGame env conn data of
           Some err \<Rightarrow>
             (Return (),
              emit (Log DebugLevel ''connection %v failed spawning: %v'')
                (emit (ListenerDisconnect conn ''Connection timeout.'') s1))
         | None \<Rightarrow>
             (case uuid_Parse env (Identity conn) of
                Inl err \<Rightarrow>
                  (Return (),
                   emit (Log WarnLevel ''connection %v has a malformed UUID ('%v')'')
                     (emit (ConnClose conn) s1))
              | Inr uid \<Rightarrow>
                  (case createPlayer env uid conn s1 of
                     (pl, s2) \<Rightarrow>
                       (case chan_send pl (players s2) of
                          Inl msg \<Rightarrow> (Panic msg, s2)
                        | Inr ch \<Rightarrow> (Return (), s2\<lparr>players := ch\<rparr>)))))"

subsection \<open>Starting, running and closing\<close>

definition loadWorld :: "env \<Rightarrow> Server \<Rightarrow> unit outcome \<times> Server" where
  "loadWorld env s =
     (let s1 = emit (Log DebugLevel ''Loading world...'') s
      in case mcdb_New env (World_Folder (c s1)) of
           Inl err \<Rightarrow> (Exit, emit (Fatal ''error loading world: %v'') s1)
         | Inr prov \<Rightarrow>
             (let s2 = emit (WorldProvider prov) (s1\<lparr>world := world_Provider env prov (world s1)\<rparr>)
              in (Return (), emit (Log DebugLevel ''Loaded world '%v'.'') s2)))"

text \<open>\<open>startListening\<close> returns the error of the bind, wrapped, or \<open>None\<close> for
  \<open>nil\<close>. \<open>now\<close> is what \<open>time.Now()\<close> returns.\<close>

definition startListening :: "env \<Rightarrow> int \<Rightarrow> Server \<Rightarrow> string option \<times> Server" where
  "startListening env now s =
     (let s1 = s\<lparr>startTime := now\<rparr>;
          l = \<lparr>ErrorLog = log s1,
               ServerName = Server_Name (c s1),
               MaximumPlayers = Server_MaximumPlayers (c s1),
               lclosed = False,
               incoming = []\<rparr>;
          s2 = emit (ListenerListen ''raknet'' (Network_Address (c s1))) (s1\<lparr>listener := Some l\<rparr>)
      in case listener_Listen env ''raknet'' (Network_Address (c s1)) of
           Some err \<Rightarrow> (Some (''listening on address failed: '' @ err), s2)
         | None \<Rightarrow> (None, emit (Log InfoLevel ''Server running on %v.'') s2))"

text \<open>The accept loop \<open>run\<close>. It returns when \<open>Accept\<close> of the listener fails, after
  closing the channel; while the listener is open and has no connection to give, the
  loop is blocked in \<open>Accept\<close>, and applying \<open>run\<close> again resumes it.\<close>

function run :: "Server \<Rightarrow> unit outcome \<times> Server" where
  "run s =
     (case listener s of
        None \<Rightarrow> (Panic ''nil pointer dereference'', s)
      | Some l \<Rightarrow>
          (case listener_Accept l of
             None \<Rightarrow> (Block, s)
           | Some (Inl err) \<Rightarrow>
               (case chan_close (players s) of
                  Inl msg \<Rightarrow> (Panic msg, s)
                | Inr ch \<Rightarrow> (Return (), s\<lparr>players := ch\<rparr>))
           | Some (Inr (conn, l')) \<Rightarrow>
               run (emit (Go_handleConn conn) (s\<lparr>listener := Some l'\<rparr>))))"
  by pat_completeness auto
termination
  by (relation "measure (\<lambda>s. case listener s of None \<Rightarrow> 0 | Some l \<Rightarrow> length (incoming l))")
    (auto simp: listener_Accept_def emit_def split: if_splits list.splits)

declare run.simps [simp del]

definition Run :: "env \<Rightarrow> int \<Rightarrow> Server \<Rightarrow> string option outcome \<times> Server" where
  "Run env now s =
     (if running s then (Panic ''server already running'', s)
      else
        (let s1 = emit (Log InfoLevel ''Starting server...'') (s\<lparr>started := 1\<rparr>)
         in case loadWorld env s1 of
              (Return u, s2) \<Rightarrow>
                (case startListening env now s2 of
                   (Some err, s3) \<Rightarrow> (Return (Some err), s3)
                 | (None, s3) \<Rightarrow>
                     (case run s3 of
                        (Return u, s4) \<Rightarrow> (Return None, s4)
                      | (Panic msg, s4) \<Rightarrow> (Panic msg, s4)
                      | (Exit, s4) \<Rightarrow> (Exit, s4)
                      | (Block, s4) \<Rightarrow> (Block, s4)))
            | (Panic msg, s2) \<Rightarrow> (Panic msg, s2)
            | (Exit, s2) \<Rightarrow> (Exit, s2)
            | (Block, s2) \<Rightarrow> (Block, s2)))"

definition Start :: "env \<Rightarrow> int \<Rightarrow> Server \<Rightarrow> string option outcome \<times> Server" where
  "Start env now s =
     (if running s then (Panic ''server already running'', s)
      else
        (let s1 = emit (Log InfoLevel ''Starting server...'') (s\<lparr>started := 1\<rparr>)
         in case loadWorld env s1 of
              (Return u, s2) \<Rightarrow>
                (case startListening env now s2 of
                   (Some err, s3) \<Rightarrow> (Return (Some err), s3)
                 | (None, s3) \<Rightarrow> (Return None, emit Go_run s3))
            | (Panic msg, s2) \<Rightarrow> (Panic msg, s2)
            | (Exit, s2) \<Rightarrow> (Exit, s2)
            | (Block, s2) \<Rightarrow> (Block, s2)))"

text \<open>The loop of \<open>Close\<close> over the registry: one \<open>Disconnect\<close> for every entry, whose
  result, if any, is not looked at.\<close>

fun disconnectPlayers :: "string \<Rightarrow> (uuid \<times> Player) list \<Rightarrow> Server \<Rightarrow> Server" where
  "disconnectPlayers msg [] s = s"
| "disconnectPlayers msg (kv # rest) s =
     disconnectPlayers msg rest (emit (PlayerDisconnect (snd kv) msg) s)"

text \<open>\<open>Close\<close>. The deferred log line runs on every way out after it is registered.
  Closing marks the listener closed when its \<open>Close\<close> reports no error.\<close>

definition Close :: "env \<Rightarrow> Server \<Rightarrow> string option outcome \<times> Server" where
  "Close env s =
     (if \<not> running s then (Panic ''server not yet running'', s)
      else
        (let s1 = emit (Log InfoLevel ''Server shutting down...'') s;
             s2 = emit (Log DebugLevel ''Disconnecting players...'') s1;
             s3 = disconnectPlayers (text_Yellow env (Server_ShutdownMessage (c s2))) (p s2) s2;
             s4 = emit (Log DebugLevel ''Closing world...'') s3;
             s5 = emit WorldClose s4
         in case world_Close env (world s5) of
              Some err \<Rightarrow> (Return (Some err), emit (Log InfoLevel ''Server stopped.'') s5)
            | None \<Rightarrow>
                (let s6 = emit (Log DebugLevel ''Closing listener...'') s5
                 in case listener s6 of
                      None \<Rightarrow>
                        (Panic ''nil pointer dereference'',
                         emit (Log InfoLevel ''Server stopped.'') s6)
                    | Some l \<Rightarrow>
                        (let err = listener_Close env l;
                             l' = (if err = None then l\<lparr>lclosed := True\<rparr> else l);
                             s7 = emit ListenerClose (s6\<lparr>listener := Some l'\<rparr>)
                         in (Return err, emit (Log InfoLevel ''Server stopped.'') s7)))))"

subsection \<open>Sequences of calls\<close>

text \<open>A raw connection reaches the listener and waits to be accepted.\<close>

definition arrive :: "Conn \<Rightarrow> Server \<Rightarrow> Server" where
  "arrive conn s =
     (case listener s of
        None \<Rightarrow> s
      | Some l \<Rightarrow> s\<lparr>listener := Some (l\<lparr>incoming := incoming l @ [conn]\<rparr>)\<rparr>)"

text \<open>Everything that can happen to a server: a call of one of its methods, the
  scheduling of one of its goroutines, the callback of a session, a connection
  arriving. \<open>exec\<close> is the server afterwards.\<close>

datatype call =
    Call_Accept
  | Call_Run int
  | Call_Start int
  | Call_Close
  | Call_run
  | Call_handleConn Conn
  | Call_handleSessionClose uuid
  | Peer_arrives Conn

fun exec :: "env \<Rightarrow> call \<Rightarrow> Server \<Rightarrow> Server" where
  "exec env Call_Accept s = snd (Accept s)"
| "exec env (Call_Run now) s = snd (Run env now s)"
| "exec env (Call_Start now) s = snd (Start env now s)"
| "exec env Call_Close s = snd (Close env s)"
| "exec env Call_run s = snd (run s)"
| "exec env (Call_handleConn conn) s = snd (handleConn env conn s)"
| "exec env (Call_handleSessionClose uid) s = handleSessionClose uid s"
| "exec env (Peer_arrives conn) s = arrive conn s"

fun execs :: "env \<Rightarrow> call list \<Rightarrow> Server \<Rightarrow> Server" where
  "execs env [] s = s"
| "execs env (k # ks) s = execs env ks (exec env k s)"

text \<open>How often the answer of \<open>running\<close> changes along a sequence of calls.\<close>

fun flag_changes :: "env \<Rightarrow> call list \<Rightarrow> Server \<Rightarrow> nat" where
  "flag_changes env [] s = 0"
| "flag_changes env (k # ks) s =
     (if running (exec env k s) = running s then 0 else 1) + flag_changes env ks (exec env k s)"

text \<open>The connection a player was built from, and the property that every player
  waiting in the channel or present in the registry was built from a connection whose
  identity parses, to the identifier the player carries.\<close>

definition conn_of :: "Player \<Rightarrow> Conn" where
  "conn_of pl = session_conn (player_session pl)"

definition parsed_identities :: "env \<Rightarrow> Server \<Rightarrow> bool" where
  "parsed_identities env s =
     list_all (\<lambda>pl. uuid_Parse env (Identity (conn_of pl)) = Inr (UUID pl))
       (senders (players s) @ Players s)"

text \<open>The events a call added to the log.\<close>

definition new_events :: "Server \<Rightarrow> Server \<Rightarrow> event list" where
  "new_events s s' = drop (length (trace s)) (trace s')"

subsection \<open>A concrete environment\<close>

definition skin_env0 :: skin_env where
  "skin_env0 =
     \<lparr>base64_DecodeString = (\<lambda>str. map (\<lambda>ch. of_nat (of_char ch)) str),
      skin_DecodeModelConfig = (\<lambda>b. ModelConfig ''geometry.humanoid.custom''),
      skin_New = (\<lambda>w h. \<lparr>skin_w = w, skin_h = h, Pix = [], Model = [],
                          ModelConfig_of = ModelConfig [], Animations = []\<rparr>),
      skin_NewAnimation = (\<lambda>w h t. \<lparr>anim_w = w, anim_h = h, anim_type = t,
                                     FrameCount = 0, anim_Pix = []\<rparr>),
      int_of_float64 = (\<lambda>f. if f = 0x4000000000000000 then 2 else 0),
      protocol_SkinAnimationHead = 1,
      protocol_SkinAnimationBody32x32 = 2,
      protocol_SkinAnimationBody128x128 = 3,
      skin_AnimationHead = 0,
      skin_AnimationBody32x32 = 1,
      skin_AnimationBody128x128 = 2\<rparr>"

definition config0 :: Config where
  "config0 =
     \<lparr>Network_Address = '':19132'',
      Server_Name = ''Dragonfly Server'',
      Server_MaximumPlayers = 0,
      Server_ShutdownMessage = ''Server closed.'',
      World_Name = ''World'',
      World_Folder = ''world'',
      World_MaximumChunkRadius = 32\<rparr>"

text \<open>An environment in which everything succeeds. The spawn is the block \<open>(0, 30, 0)\<close>,
  whose centre is \<open>(0.5, 30, 0.5)\<close>; \<open>30\<close> is \<open>0x41F00000\<close> as a \<open>float32\<close>. The only
  identity that parses is the one of \<open>conn0\<close> below.\<close>

definition env0 :: env where
  "env0 =
     \<lparr>skins = skin_env0,
      DefaultConfig = config0,
      logrus_New = Logger 0,
      world_New = (\<lambda>lg. \<lparr>Spawn = (0, 30, 0), Time = 0, world_Name = ''World'',
                          world_provider = None\<rparr>),
      world_Provider = (\<lambda>prov w. w\<lparr>world_provider := Some prov\<rparr>),
      world_Close = (\<lambda>w. None),
      mcdb_New = (\<lambda>folder. Inr (Provider folder)),
      listener_Listen = (\<lambda>network address. None),
      listener_Close = (\<lambda>l. None),
      conn_StartGame = (\<lambda>conn data. None),
      uuid_Parse = (\<lambda>str. if str = ''00000000-0000-0000-0000-000000000007'' then Inr 7
                           else Inl ''invalid UUID format''),
      text_Yellow = (\<lambda>str. ''<yellow>'' @ str),
      BlockPos_Vec3 = (\<lambda>pos. if pos = (0, 30, 0) then (0, 0x41F00000, 0) else (0, 0, 0)),
      Vec3_Add = (\<lambda>a b. if a = (0, 0x41F00000, 0) \<and> b = (0x3F000000, 0, 0x3F000000)
                         then (0x3F000000, 0x41F00000, 0x3F000000) else a),
      block_All = [(''minecraft:air'', [])],
      protocol_CurrentBlockVersion = 17760256\<rparr>"

text \<open>The same environment with a listener that cannot bind, and with a world whose
  \<open>Close\<close> fails.\<close>

definition env_bind_fails :: env where
  "env_bind_fails = env0\<lparr>listener_Listen := (\<lambda>network address. Some ''address already in use'')\<rparr>"

definition env_world_fails :: env where
  "env_world_fails = env0\<lparr>world_Close := (\<lambda>w. Some ''disk full'')\<rparr>"

definition clientData0 :: ClientData where
  "clientData0 =
     \<lparr>SkinData = ''AAAA'', SkinGeometry = [], SkinResourcePatch = [],
      SkinImageWidth = 64, SkinImageHeight = 32,
      AnimatedImageData =
        [\<lparr>Image = ''QQ=='', ImageWidth = 32, ImageHeight = 32, Type = 2,
          Frames = 0x4000000000000000\<rparr>,
         \<lparr>Image = [], ImageWidth = 8, ImageHeight = 8, Type = 9, Frames = 0\<rparr>,
         \<lparr>Image = [], ImageWidth = 128, ImageHeight = 128, Type = 3, Frames = 0\<rparr>,
         \<lparr>Image = [], ImageWidth = 32, ImageHeight = 64, Type = 1, Frames = 0\<rparr>]\<rparr>"

definition conn0 :: Conn where
  "conn0 =
     \<lparr>RemoteAddr = ''10.0.0.7:50001'',
      Identity = ''00000000-0000-0000-0000-000000000007'',
      DisplayName = ''Steve'',
      XUID = ''2535400000000007'',
      ClientData_of = clientData0\<rparr>"

definition conn_bad :: Conn where
  "conn_bad = conn0\<lparr>RemoteAddr := ''10.0.0.8:50002'', Identity := ''not-a-uuid''\<rparr>"

text \<open>A fresh server, the same server started, the started server with one player
  waiting in the channel, the started server closed and its accept loop run to its end,
  and the started server with one player admitted.\<close>

definition server0 :: Server where
  "server0 = New env0 (\<lambda>a. config0) None None"

definition server_started :: Server where
  "server_started = snd (Start env0 1000 server0)"

definition server_pending :: Server where
  "server_pending =
     execs env0 [Peer_arrives conn0, Call_run, Call_handleConn conn0] server_started"

definition server_closed :: Server where
  "server_closed = execs env0 [Call_Close, Call_run] server_started"

definition server_one :: Server where
  "server_one =
     execs env0 [Peer_arrives conn0, Call_run, Call_handleConn conn0, Call_Accept] server_started"

section \<open>Facts about the model\<close>

lemma emit_fields [simp]:
  "started (emit e s) = started s"
  "c (emit e s) = c s"
  "log (emit e s) = log s"
  "listener (emit e s) = listener s"
  "world (emit e s) = world s"
  "players (emit e s) = players s"
  "startTime (emit e s) = startTime s"
  "p (emit e s) = p s"
  "trace (emit e s) = trace s @ [e]"
  by (simp_all add: emit_def)

lemma running_emit [simp]: "running (emit e s) = running s"
  by (simp add: running_def)

lemma disconnectPlayers_eq:
  "disconnectPlayers msg kvs s =
     s\<lparr>trace := trace s @ map (\<lambda>kv. PlayerDisconnect (snd kv) msg) kvs\<rparr>"
  by (induction kvs arbitrary: s) (simp_all add: emit_def)

lemma Close_running:
  assumes "running s"
  shows "Close env s =
    (case world_Close env (world s) of
       Some err \<Rightarrow>
         (Return (Some err),
          s\<lparr>trace := trace s @
             [Log InfoLevel ''Server shutting down...'',
              Log DebugLevel ''Disconnecting players...'']
             @ map (\<lambda>pl. PlayerDisconnect pl (text_Yellow env (Server_ShutdownMessage (c s))))
                 (Players s)
             @ [Log DebugLevel ''Closing world...'', WorldClose,
                Log InfoLevel ''Server stopped.'']\<rparr>)
     | None \<Rightarrow>
         (case listener s of
            None \<Rightarrow>
              (Panic ''nil pointer dereference'',
               s\<lparr>trace := trace s @
                  [Log InfoLevel ''Server shutting down...'',
                   Log DebugLevel ''Disconnecting players...'']
                  @ map (\<lambda>pl. PlayerDisconnect pl (text_Yellow env (Server_ShutdownMessage (c s))))
                      (Players s)
                  @ [Log DebugLevel ''Closing world...'', WorldClose,
                     Log DebugLevel ''Closing listener...'',
                     Log InfoLevel ''Server stopped.'']\<rparr>)
          | Some l \<Rightarrow>
              (Return (listener_Close env l),
               s\<lparr>listener :=
                    Some (if listener_Close env l = None then l\<lparr>lclosed := True\<rparr> else l),
                 trace := trace s @
                  [Log InfoLevel ''Server shutting down...'',
                   Log DebugLevel ''Disconnecting players...'']
                  @ map (\<lambda>pl. PlayerDisconnect pl (text_Yellow env (Server_ShutdownMessage (c s))))
                      (Players s)
                  @ [Log DebugLevel ''Closing world...'', WorldClose,
                     Log DebugLevel ''Closing listener...'', ListenerClose,
                     Log InfoLevel ''Server stopped.'']\<rparr>)))"
  using assms
  by (simp add: Close_def Let_def disconnectPlayers_eq emit_def Players_def
      split: option.splits)

lemma takeWhile_until:
  "\<forall>x\<in>set xs. P x \<Longrightarrow> \<not> P y \<Longrightarrow> takeWhile P (xs @ y # ys) = xs"
  by (induction xs) simp_all

lemma run_frame:
  "\<exists>l' ch tr. snd (run s) = s\<lparr>listener := l', players := ch, trace := tr\<rparr>
     \<and> (ch = players s \<or> chan_close (players s) = Inr ch)"
proof (induction s rule: run.induct)
  case (1 s)
  show ?case
  proof (cases "listener s")
    case None
    then have "snd (run s) = s" by (subst run.simps) simp
    then have "snd (run s) = s\<lparr>listener := listener s, players := players s, trace := trace s\<rparr>"
      by simp
    then show ?thesis by blast
  next
    case (Some l)
    show ?thesis
    proof (cases "listener_Accept l")
      case None
      with Some have "snd (run s) = s" by (subst run.simps) simp
      then have "snd (run s) = s\<lparr>listener := listener s, players := players s, trace := trace s\<rparr>"
        by simp
      then show ?thesis by blast
    next
      case Acc: (Some r)
      show ?thesis
      proof (cases r)
        case (Inl err)
        show ?thesis
        proof (cases "chan_close (players s)")
          case (Inl msg)
          with Some Acc \<open>r = Inl err\<close> have "snd (run s) = s" by (subst run.simps) simp
          then have "snd (run s) = s\<lparr>listener := listener s, players := players s, trace := trace s\<rparr>"
            by simp
          then show ?thesis by blast
        next
          case (Inr ch)
          with Some Acc \<open>r = Inl err\<close> have "snd (run s) = s\<lparr>players := ch\<rparr>"
            by (subst run.simps) simp
          then have "snd (run s) = s\<lparr>listener := listener s, players := ch, trace := trace s\<rparr>"
            by simp
          with Inr show ?thesis by blast
        qed
      next
        case (Inr cl)
        obtain conn l' where cl: "cl = (conn, l')" by (cases cl)
        let ?s' = "emit (Go_handleConn conn) (s\<lparr>listener := Some l'\<rparr>)"
        have step: "run s = run ?s'"
          using Some Acc Inr cl by (subst run.simps) simp
        from "1.IH" [OF Some Acc Inr cl [symmetric]]
        obtain l2 ch tr where
          eq: "snd (run ?s') = ?s'\<lparr>listener := l2, players := ch, trace := tr\<rparr>"
          and ch: "ch = players ?s' \<or> chan_close (players ?s') = Inr ch"
          by blast
        have "snd (run s) = s\<lparr>listener := l2, players := ch, trace := tr\<rparr>"
          using eq step by (simp add: emit_def)
        moreover have "ch = players s \<or> chan_close (players s) = Inr ch"
          using ch by simp
        ultimately show ?thesis by blast
      qed
    qed
  qed
qed

lemma run_fields:
  "started (snd (run s)) = started s"
  "c (snd (run s)) = c s"
  "log (snd (run s)) = log s"
  "world (snd (run s)) = world s"
  "startTime (snd (run s)) = startTime s"
  "p (snd (run s)) = p s"
proof -
  obtain l' ch tr where "snd (run s) = s\<lparr>listener := l', players := ch, trace := tr\<rparr>"
    using run_frame [of s] by blast
  then show "started (snd (run s)) = started s" "c (snd (run s)) = c s"
    "log (snd (run s)) = log s" "world (snd (run s)) = world s"
    "startTime (snd (run s)) = startTime s" "p (snd (run s)) = p s"
    by simp_all
qed

lemma run_players:
  "players (snd (run s)) = players s \<or> chan_close (players s) = Inr (players (snd (run s)))"
proof -
  obtain l' ch tr where "snd (run s) = s\<lparr>listener := l', players := ch, trace := tr\<rparr>"
    and "ch = players s \<or> chan_close (players s) = Inr ch"
    using run_frame [of s] by blast
  then show ?thesis by auto
qed

lemma loadWorld_fields:
  "started (snd (loadWorld env s)) = started s"
  "c (snd (loadWorld env s)) = c s"
  "log (snd (loadWorld env s)) = log s"
  "listener (snd (loadWorld env s)) = listener s"
  "players (snd (loadWorld env s)) = players s"
  "p (snd (loadWorld env s)) = p s"
  by (simp_all add: loadWorld_def Let_def split: sum.splits)

lemma startListening_fields:
  "started (snd (startListening env now s)) = started s"
  "c (snd (startListening env now s)) = c s"
  "log (snd (startListening env now s)) = log s"
  "world (snd (startListening env now s)) = world s"
  "players (snd (startListening env now s)) = players s"
  "p (snd (startListening env now s)) = p s"
  by (simp_all add: startListening_def Let_def split: option.splits)

lemma snd_eqD: "f = (a, b) \<Longrightarrow> b = snd f"
  by simp

lemma Start_fields:
  "started (snd (Start env now s)) = (if running s then started s else 1)"
  "c (snd (Start env now s)) = c s"
  "players (snd (Start env now s)) = players s"
  "p (snd (Start env now s)) = p s"
  by (auto simp: Start_def Let_def loadWorld_fields startListening_fields
      split: prod.splits outcome.splits option.splits dest!: snd_eqD)

lemma Run_fields:
  "started (snd (Run env now s)) = (if running s then started s else 1)"
  "c (snd (Run env now s)) = c s"
  "p (snd (Run env now s)) = p s"
  by (auto simp: Run_def Let_def loadWorld_fields startListening_fields run_fields
      split: prod.splits outcome.splits option.splits dest!: snd_eqD)

lemma Close_fields:
  "started (snd (Close env s)) = started s"
  "c (snd (Close env s)) = c s"
  "players (snd (Close env s)) = players s"
  "p (snd (Close env s)) = p s"
proof -
  have "\<exists>l' tr. snd (Close env s) = s\<lparr>listener := l', trace := tr\<rparr>"
  proof (cases "running s")
    case True
    show ?thesis
    proof (cases "world_Close env (world s)")
      case None
      show ?thesis
      proof (cases "listener s")
        case N: None
        have "snd (Close env s) = s\<lparr>listener := listener s, trace := trace (snd (Close env s))\<rparr>"
          using True None N by (simp add: Close_running)
        then show ?thesis by blast
      next
        case (Some l)
        have "snd (Close env s) =
            s\<lparr>listener := listener (snd (Close env s)), trace := trace (snd (Close env s))\<rparr>"
          using True None Some by (simp add: Close_running)
        then show ?thesis by blast
      qed
    next
      case (Some err)
      have "snd (Close env s) = s\<lparr>listener := listener s, trace := trace (snd (Close env s))\<rparr>"
        using True Some by (simp add: Close_running)
      then show ?thesis by blast
    qed
  next
    case False
    then have "snd (Close env s) = s\<lparr>listener := listener s, trace := trace s\<rparr>"
      by (simp add: Close_def)
    then show ?thesis by blast
  qed
  then obtain l' tr where "snd (Close env s) = s\<lparr>listener := l', trace := tr\<rparr>"
    by blast
  then show "started (snd (Close env s)) = started s" "c (snd (Close env s)) = c s"
    "players (snd (Close env s)) = players s" "p (snd (Close env s)) = p s"
    by simp_all
qed

lemma Accept_fields:
  "started (snd (Accept s)) = started s"
  "c (snd (Accept s)) = c s"
  "listener (snd (Accept s)) = listener s"
  by (simp_all add: Accept_def split: option.splits prod.splits)

lemma handleConn_fields:
  "started (snd (handleConn env conn s)) = started s"
  "c (snd (handleConn env conn s)) = c s"
  "listener (snd (handleConn env conn s)) = listener s"
  "world (snd (handleConn env conn s)) = world s"
  "p (snd (handleConn env conn s)) = p s"
  by (simp_all add: handleConn_def createPlayer_def Let_def
      split: option.splits sum.splits prod.splits)

lemma started_exec:
  "started (exec env k s) =
     (if \<not> running s \<and> (\<exists>now. k = Call_Start now \<or> k = Call_Run now) then 1 else started s)"
  by (cases k)
     (simp_all add: Accept_fields Run_fields Start_fields Close_fields run_fields
        handleConn_fields handleSessionClose_def arrive_def running_def split: option.splits)

lemma running_exec: "running s \<Longrightarrow> running (exec env k s)"
  by (simp add: running_def started_exec)

lemma running_execs: "running s \<Longrightarrow> running (execs env ks s)"
  by (induction ks arbitrary: s) (simp_all add: running_exec)

lemma flag_changes_running: "running s \<Longrightarrow> flag_changes env ks s = 0"
  by (induction ks arbitrary: s) (simp_all add: running_exec)

lemma flag_changes_le: "flag_changes env ks s \<le> 1"
proof (induction ks arbitrary: s)
  case Nil
  then show ?case by simp
next
  case (Cons k ks)
  show ?case
  proof (cases "running (exec env k s) = running s")
    case True
    then show ?thesis using Cons.IH [of "exec env k s"] by simp
  next
    case False
    then have "running (exec env k s)"
      using running_exec [of s env k] by blast
    then have "flag_changes env ks (exec env k s) = 0"
      by (rule flag_changes_running)
    with False show ?thesis by simp
  qed
qed

lemma Run_players:
  "players (snd (Run env now s)) = players s
   \<or> chan_close (players s) = Inr (players (snd (Run env now s)))"
proof (cases "running s")
  case True
  then show ?thesis by (simp add: Run_def)
next
  case False
  let ?s1 = "emit (Log InfoLevel ''Starting server...'') (s\<lparr>started := 1\<rparr>)"
  let ?s2 = "snd (loadWorld env ?s1)"
  let ?s3 = "snd (startListening env now ?s2)"
  have p3: "players ?s3 = players s"
    by (simp add: startListening_fields loadWorld_fields)
  have "snd (Run env now s) = ?s2 \<or> snd (Run env now s) = ?s3
        \<or> snd (Run env now s) = snd (run ?s3)"
    using False
    by (auto simp: Run_def Let_def split: prod.splits outcome.splits option.splits
        dest!: snd_eqD)
  then show ?thesis
    using run_players [of ?s3] p3 by (auto simp: loadWorld_fields)
qed

lemma chan_close_senders: "chan_close ch = Inr ch' \<Longrightarrow> senders ch' = senders ch"
  by (auto simp: chan_close_def split: if_splits)

lemma chan_close_closed: "chan_closed ch \<Longrightarrow> chan_close ch = Inl ''close of closed channel''"
  by (simp add: chan_close_def)

lemma handleConn_players_closed:
  "chan_closed (players s) \<Longrightarrow> players (snd (handleConn env conn s)) = players s"
  by (simp add: handleConn_def createPlayer_def chan_send_def Let_def
      split: option.splits sum.splits)

lemma Accept_closed:
  "chan_closed (players s) \<Longrightarrow> Accept s = (Return (Inl ''server closed''), s)"
  by (simp add: Accept_def chan_recv_def)

lemma chan_closed_exec:
  assumes "chan_closed (players s)"
  shows "chan_closed (players (exec env k s))"
proof (cases k)
  case Call_Accept
  then show ?thesis using assms by (simp add: Accept_closed)
next
  case (Call_Run now)
  then show ?thesis
    using assms Run_players [of env now s] by (auto simp: chan_close_closed)
next
  case (Call_Start now)
  then show ?thesis using assms by (simp add: Start_fields)
next
  case Call_Close
  then show ?thesis using assms by (simp add: Close_fields)
next
  case Call_run
  then show ?thesis
    using assms run_players [of s] by (auto simp: chan_close_closed)
next
  case (Call_handleConn conn)
  then show ?thesis using assms by (simp add: handleConn_players_closed)
next
  case (Call_handleSessionClose uid)
  then show ?thesis using assms by (simp add: handleSessionClose_def)
next
  case (Peer_arrives conn)
  then show ?thesis using assms by (simp add: arrive_def split: option.splits)
qed

lemma chan_closed_execs:
  "chan_closed (players s) \<Longrightarrow> chan_closed (players (execs env ks s))"
  by (induction ks arbitrary: s) (simp_all add: chan_closed_exec)

lemma run_closed_listener:
  assumes "listener s = Some l" "lclosed l"
  shows "run s =
    (case chan_close (players s) of
       Inl msg \<Rightarrow> (Panic msg, s)
     | Inr ch \<Rightarrow> (Return (), s\<lparr>players := ch\<rparr>))"
  using assms by (subst run.simps) (simp add: listener_Accept_def)

lemma Accept_registry:
  "p (snd (Accept s)) = p s
   \<or> (\<exists>pl. p (snd (Accept s)) = AList.update (UUID pl) pl (p s))"
  by (auto simp: Accept_def split: option.splits prod.splits)

lemma registry_distinct_New: "distinct (map fst (p (New env mem cp lp)))"
  by (simp add: New_def Let_def split: option.splits)

lemma registry_distinct_exec:
  assumes "distinct (map fst (p s))"
  shows "distinct (map fst (p (exec env k s)))"
proof (cases k)
  case Call_Accept
  then show ?thesis
    using assms Accept_registry [of s] by (auto simp: distinct_update)
next
  case (Call_handleSessionClose uid)
  then show ?thesis
    using assms by (simp add: handleSessionClose_def distinct_delete)
next
  case (Peer_arrives conn)
  then show ?thesis
    using assms by (simp add: arrive_def split: option.splits)
qed (use assms in \<open>simp_all add: Run_fields Start_fields Close_fields run_fields handleConn_fields\<close>)

lemma registry_distinct_execs:
  "distinct (map fst (p s)) \<Longrightarrow> distinct (map fst (p (execs env ks s)))"
  by (induction ks arbitrary: s) (simp_all add: registry_distinct_exec)

lemma PlayerCount_identifiers:
  "PlayerCount (execs env ks (New env mem cp lp)) =
     int (card (dom (map_of (p (execs env ks (New env mem cp lp))))))"
proof -
  let ?s = "execs env ks (New env mem cp lp)"
  have "distinct (map fst (p ?s))"
    by (intro registry_distinct_execs registry_distinct_New)
  then have "card (set (map fst (p ?s))) = length (p ?s)"
    using distinct_card [of "map fst (p ?s)"] by simp
  then show ?thesis
    by (simp add: PlayerCount_def dom_map_of_conv_image_fst)
qed

lemma Start_when_running:
  "running s \<Longrightarrow> Start env now s = (Panic ''server already running'', s)"
  by (simp add: Start_def)

lemma appendAnimations_Animations:
  "Animations (appendAnimations se xs sk) = Animations sk @ map (createAnimation se) xs"
  by (induction xs arbitrary: sk) simp_all

lemma createSkin_Animations:
  "Animations (createSkin se data) =
     Animations (skin_New se (SkinImageWidth data) (SkinImageHeight data))
       @ map (createAnimation se) (AnimatedImageData data)"
  by (simp add: createSkin_def Let_def appendAnimations_Animations)

lemma update_values: "set (map snd (AList.update k v al)) \<subseteq> insert v (set (map snd al))"
  by (induction al) auto

lemma delete_values: "set (map snd (AList.delete k al)) \<subseteq> set (map snd al)"
  by (induction al) auto

lemma parsed_identities_iff:
  "parsed_identities env s \<longleftrightarrow>
     (\<forall>pl \<in> set (senders (players s)) \<union> set (Players s).
        uuid_Parse env (Identity (conn_of pl)) = Inr (UUID pl))"
  by (auto simp: parsed_identities_def list_all_iff)

lemma parsed_identities_same:
  "senders (players s') = senders (players s) \<Longrightarrow> p s' = p s \<Longrightarrow>
   parsed_identities env s' = parsed_identities env s"
  by (simp add: parsed_identities_def Players_def)

lemma parsed_identities_New: "parsed_identities env (New env mem cp lp)"
  by (simp add: parsed_identities_def New_def Players_def Let_def split: option.splits)

lemma parsed_identities_Accept:
  assumes "parsed_identities env s"
  shows "parsed_identities env (snd (Accept s))"
proof (cases "chan_recv (players s)")
  case None
  then show ?thesis using assms by (simp add: Accept_def)
next
  case (Some r)
  obtain v ch where r: "r = (v, ch)" by (cases r)
  show ?thesis
  proof (cases v)
    case None
    with Some r have "chan_closed (players s)"
      by (auto simp: chan_recv_def split: if_splits list.splits)
    then show ?thesis using assms by (simp add: Accept_closed)
  next
    case (Some pl)
    with \<open>chan_recv (players s) = Some r\<close> r
    have snd: "senders (players s) = pl # senders ch"
      by (auto simp: chan_recv_def split: if_splits list.splits)
    have acc: "snd (Accept s) = s\<lparr>players := ch, p := AList.update (UUID pl) pl (p s)\<rparr>"
      using \<open>chan_recv (players s) = Some r\<close> r Some by (simp add: Accept_def)
    have "set (Players (snd (Accept s))) \<subseteq> insert pl (set (Players s))"
      using update_values [of "UUID pl" pl "p s"] by (simp add: acc Players_def)
    then show ?thesis
      using assms snd unfolding parsed_identities_iff by (auto simp: acc)
  qed
qed

lemma createPlayer_identity:
  "conn_of (fst (createPlayer env uid conn s)) = conn"
  "UUID (fst (createPlayer env uid conn s)) = uid"
  by (simp_all add: createPlayer_def Let_def conn_of_def UUID_def player_NewWithSession_def
      session_New_def)

lemma createPlayer_players: "players (snd (createPlayer env uid conn s)) = players s"
  by (simp add: createPlayer_def Let_def)

lemma handleConn_senders:
  "senders (players (snd (handleConn env conn s))) =
     (case conn_StartGame env conn (gameData env s) of
        Some e \<Rightarrow> senders (players s)
      | None \<Rightarrow>
          (case uuid_Parse env (Identity conn) of
             Inl e \<Rightarrow> senders (players s)
           | Inr uid \<Rightarrow>
               if chan_closed (players s) then senders (players s)
               else senders (players s)
                 @ [fst (createPlayer env uid conn (emit (ConnStartGame conn (gameData env s)) s))]))"
proof (cases "conn_StartGame env conn (gameData env s)")
  case (Some e)
  then show ?thesis by (simp add: handleConn_def Let_def)
next
  case None
  show ?thesis
  proof (cases "uuid_Parse env (Identity conn)")
    case (Inl e)
    with None show ?thesis by (simp add: handleConn_def Let_def)
  next
    case (Inr uid)
    let ?s1 = "emit (ConnStartGame conn (gameData env s)) s"
    obtain pl s2 where cp: "createPlayer env uid conn ?s1 = (pl, s2)"
      by (cases "createPlayer env uid conn ?s1")
    have p2: "players s2 = players s"
      using createPlayer_players [of env uid conn ?s1] cp by simp
    show ?thesis
      using None Inr cp p2 by (simp add: handleConn_def Let_def chan_send_def)
  qed
qed

lemma parsed_identities_handleConn:
  assumes "parsed_identities env s"
  shows "parsed_identities env (snd (handleConn env conn s))"
proof -
  let ?s' = "snd (handleConn env conn s)"
  have ps: "Players ?s' = Players s"
    by (simp add: handleConn_fields Players_def)
  have "senders (players ?s') = senders (players s)
      \<or> (\<exists>pl. senders (players ?s') = senders (players s) @ [pl]
            \<and> uuid_Parse env (Identity (conn_of pl)) = Inr (UUID pl))"
    unfolding handleConn_senders
    by (simp add: createPlayer_identity split: option.splits sum.splits)
  then show ?thesis
    using assms unfolding parsed_identities_iff ps by auto
qed

lemma parsed_identities_mono:
  assumes "parsed_identities env s"
    and "set (senders (players s')) \<subseteq> set (senders (players s))"
    and "set (Players s') \<subseteq> set (Players s)"
  shows "parsed_identities env s'"
  using assms unfolding parsed_identities_iff by blast

lemma run_senders: "senders (players (snd (run s))) = senders (players s)"
proof -
  from run_players [of s] show ?thesis
  proof
    assume "players (snd (run s)) = players s"
    then show ?thesis by simp
  next
    assume "chan_close (players s) = Inr (players (snd (run s)))"
    then show ?thesis by (rule chan_close_senders)
  qed
qed

lemma Run_senders: "senders (players (snd (Run env now s))) = senders (players s)"
proof -
  from Run_players [of env now s] show ?thesis
  proof
    assume "players (snd (Run env now s)) = players s"
    then show ?thesis by simp
  next
    assume "chan_close (players s) = Inr (players (snd (Run env now s)))"
    then show ?thesis by (rule chan_close_senders)
  qed
qed

lemma parsed_identities_exec:
  assumes "parsed_identities env s"
  shows "parsed_identities env (exec env k s)"
proof (cases k)
  case Call_Accept
  then show ?thesis using assms by (simp add: parsed_identities_Accept)
next
  case (Call_Run now)
  have "parsed_identities env (snd (Run env now s))"
    using assms by (rule parsed_identities_mono) (simp_all add: Run_senders Players_def Run_fields)
  then show ?thesis using Call_Run by simp
next
  case (Call_Start now)
  have "parsed_identities env (snd (Start env now s))"
    using assms by (rule parsed_identities_mono) (simp_all add: Players_def Start_fields)
  then show ?thesis using Call_Start by simp
next
  case Call_Close
  have "parsed_identities env (snd (Close env s))"
    using assms by (rule parsed_identities_mono) (simp_all add: Players_def Close_fields)
  then show ?thesis using Call_Close by simp
next
  case Call_run
  have "parsed_identities env (snd (run s))"
    using assms by (rule parsed_identities_mono) (simp_all add: run_senders Players_def run_fields)
  then show ?thesis using Call_run by simp
next
  case (Call_handleConn conn)
  then show ?thesis using assms by (simp add: parsed_identities_handleConn)
next
  case (Call_handleSessionClose uid)
  have "parsed_identities env (handleSessionClose uid s)"
    using assms
  proof (rule parsed_identities_mono)
    show "set (senders (players (handleSessionClose uid s))) \<subseteq> set (senders (players s))"
      by (simp add: handleSessionClose_def)
    show "set (Players (handleSessionClose uid s)) \<subseteq> set (Players s)"
      using delete_values [of uid "p s"] by (simp add: handleSessionClose_def Players_def)
  qed
  then show ?thesis using Call_handleSessionClose by simp
next
  case (Peer_arrives conn)
  have "parsed_identities env (arrive conn s)"
    using assms
    by (rule parsed_identities_mono) (simp_all add: Players_def arrive_def split: option.splits)
  then show ?thesis using Peer_arrives by simp
qed

lemma parsed_identities_execs:
  "parsed_identities env s \<Longrightarrow> parsed_identities env (execs env ks s)"
  by (induction ks arbitrary: s) (simp_all add: parsed_identities_exec)

text \<open>What \<open>Accept\<close> does, by the state of the channel: it takes the oldest waiting
  player, stores it in the registry under its identifier and returns it; it blocks
  while the channel is open and nobody waits; on a closed channel it returns the
  closed-server error and leaves the server as it is, on that call and on every later
  one. And the path on which \<open>Close\<close> leads there: the world and the listener close
  without error, nobody waits in the channel, and the accept loop then runs and closes
  the channel.\<close>

lemma Accept_behaviour:
  "(\<not> chan_closed (players s) \<longrightarrow> senders (players s) = pl # rest \<longrightarrow>
      Accept s =
        (Return (Inr pl),
         s\<lparr>players := (players s)\<lparr>senders := rest\<rparr>,
           p := AList.update (UUID pl) pl (p s)\<rparr>)
      \<and> map_of (p (snd (Accept s))) (UUID pl) = Some pl)
   \<and> (\<not> chan_closed (players s) \<longrightarrow> senders (players s) = [] \<longrightarrow> Accept s = (Block, s))
   \<and> (chan_closed (players s) \<longrightarrow>
        Accept s = (Return (Inl ''server closed''), s)
        \<and> fst (Accept (execs env ks s)) = Return (Inl ''server closed''))
   \<and> (running s \<longrightarrow> listener s = Some l \<longrightarrow> world_Close env (world s) = None \<longrightarrow>
      listener_Close env l = None \<longrightarrow> \<not> chan_closed (players s) \<longrightarrow>
      senders (players s) = [] \<longrightarrow>
        fst (Close env s) = Return None
        \<and> \<not> chan_closed (players (snd (Close env s)))
        \<and> fst (run (snd (Close env s))) = Return ()
        \<and> fst (Accept (execs env ks (snd (run (snd (Close env s)))))) =
            Return (Inl ''server closed''))"
proof -
  have recv: "\<not> chan_closed (players s) \<longrightarrow> senders (players s) = pl # rest \<longrightarrow>
      Accept s =
        (Return (Inr pl),
         s\<lparr>players := (players s)\<lparr>senders := rest\<rparr>,
           p := AList.update (UUID pl) pl (p s)\<rparr>)
      \<and> map_of (p (snd (Accept s))) (UUID pl) = Some pl"
    by (simp add: Accept_def chan_recv_def update_conv')
  have block: "\<not> chan_closed (players s) \<longrightarrow> senders (players s) = [] \<longrightarrow>
      Accept s = (Block, s)"
    by (simp add: Accept_def chan_recv_def)
  have closed: "chan_closed (players s) \<longrightarrow>
        Accept s = (Return (Inl ''server closed''), s)
        \<and> fst (Accept (execs env ks s)) = Return (Inl ''server closed'')"
    using chan_closed_execs [of s env ks] by (simp add: Accept_closed)
  have shut: "fst (Close env s) = Return None
        \<and> \<not> chan_closed (players (snd (Close env s)))
        \<and> fst (run (snd (Close env s))) = Return ()
        \<and> fst (Accept (execs env ks (snd (run (snd (Close env s)))))) =
            Return (Inl ''server closed'')"
    if h: "running s" "listener s = Some l" "world_Close env (world s) = None"
      "listener_Close env l = None" "\<not> chan_closed (players s)" "senders (players s) = []"
  proof -
    let ?s1 = "snd (Close env s)"
    have r: "fst (Close env s) = Return None"
      using h by (simp add: Close_running)
    have l1: "listener ?s1 = Some (l\<lparr>lclosed := True\<rparr>)"
      using h by (simp add: Close_running)
    have p1: "players ?s1 = players s"
      by (simp add: Close_fields)
    have cc: "chan_close (players ?s1) = Inr ((players s)\<lparr>chan_closed := True\<rparr>)"
      using h p1 by (simp add: chan_close_def)
    have run1: "run ?s1 = (Return (), ?s1\<lparr>players := (players s)\<lparr>chan_closed := True\<rparr>\<rparr>)"
      using run_closed_listener [OF l1] cc by simp
    then have "chan_closed (players (snd (run ?s1)))"
      by simp
    then have "chan_closed (players (execs env ks (snd (run ?s1))))"
      by (rule chan_closed_execs)
    then have "fst (Accept (execs env ks (snd (run ?s1)))) = Return (Inl ''server closed'')"
      by (simp add: Accept_closed)
    with r run1 p1 h show ?thesis by simp
  qed
  show ?thesis
    using recv block closed shut by blast
qed

section \<open>The claims\<close>

text \<open>C1: on a running server \<open>Close\<close> does three things in this order. It calls
  \<open>Disconnect\<close> with the configured shutdown message, coloured by \<open>text.Yellow\<close>, on
  every player of the registry, and looks at no result of these calls; then it calls
  \<open>Close\<close> of the world, and returns its error if there is one; and only then it calls
  \<open>Close\<close> of the listener and returns what that returns. Everything logged before the
  call of the world's \<open>Close\<close> is the two opening log lines, one \<open>Disconnect\<close> for every
  registered player, and the log line that announces the closing of the world.\<close>

theorem Close_order:
  assumes "running s"
  shows "new_events s (snd (Close env s)) =
           [Log InfoLevel ''Server shutting down...'',
            Log DebugLevel ''Disconnecting players...'']
           @ map (\<lambda>pl. PlayerDisconnect pl (text_Yellow env (Server_ShutdownMessage (c s))))
               (Players s)
           @ [Log DebugLevel ''Closing world...'', WorldClose]
           @ (case world_Close env (world s) of
                Some err \<Rightarrow> []
              | None \<Rightarrow>
                  Log DebugLevel ''Closing listener...''
                    # (case listener s of None \<Rightarrow> [] | Some l \<Rightarrow> [ListenerClose]))
           @ [Log InfoLevel ''Server stopped.'']
         \<and> trace (snd (Close env s)) = trace s @ new_events s (snd (Close env s))
         \<and> fst (Close env s) =
             (case world_Close env (world s) of
                Some err \<Rightarrow> Return (Some err)
              | None \<Rightarrow>
                  (case listener s of
                     None \<Rightarrow> Panic ''nil pointer dereference''
                   | Some l \<Rightarrow> Return (listener_Close env l)))
         \<and> takeWhile (\<lambda>e. e \<noteq> WorldClose) (new_events s (snd (Close env s))) =
             [Log InfoLevel ''Server shutting down...'',
              Log DebugLevel ''Disconnecting players...'']
             @ map (\<lambda>pl. PlayerDisconnect pl (text_Yellow env (Server_ShutdownMessage (c s))))
                 (Players s)
             @ [Log DebugLevel ''Closing world...'']"
proof -
  let ?msg = "text_Yellow env (Server_ShutdownMessage (c s))"
  let ?pre = "[Log InfoLevel ''Server shutting down...'',
               Log DebugLevel ''Disconnecting players...'']
              @ map (\<lambda>pl. PlayerDisconnect pl ?msg) (Players s)
              @ [Log DebugLevel ''Closing world...'']"
  let ?post = "(case world_Close env (world s) of
                  Some err \<Rightarrow> []
                | None \<Rightarrow>
                    Log DebugLevel ''Closing listener...''
                      # (case listener s of None \<Rightarrow> [] | Some l \<Rightarrow> [ListenerClose]))
               @ [Log InfoLevel ''Server stopped.'']"
  have tr: "trace (snd (Close env s)) = trace s @ ?pre @ WorldClose # ?post"
    using assms by (simp add: Close_running split: option.splits)
  then have ne: "new_events s (snd (Close env s)) = ?pre @ WorldClose # ?post"
    by (simp add: new_events_def)
  have pre: "\<forall>e\<in>set ?pre. e \<noteq> WorldClose"
    by auto
  have tw: "takeWhile (\<lambda>e. e \<noteq> WorldClose) (?pre @ WorldClose # ?post) = ?pre"
    using pre by (intro takeWhile_until) simp_all
  have res: "fst (Close env s) =
             (case world_Close env (world s) of
                Some err \<Rightarrow> Return (Some err)
              | None \<Rightarrow>
                  (case listener s of
                     None \<Rightarrow> Panic ''nil pointer dereference''
                   | Some l \<Rightarrow> Return (listener_Close env l)))"
    using assms by (simp add: Close_running split: option.splits)
  show ?thesis
    using tr tw res unfolding ne by simp
qed

theorem Close_order_witness:
  "running server_one
   \<and> new_events server_one (snd (Close env0 server_one)) =
       [Log InfoLevel ''Server shutting down...'',
        Log DebugLevel ''Disconnecting players...'',
        PlayerDisconnect (hd (Players server_one)) ''<yellow>Server closed.'',
        Log DebugLevel ''Closing world...'', WorldClose,
        Log DebugLevel ''Closing listener...'', ListenerClose,
        Log InfoLevel ''Server stopped.'']
   \<and> fst (Close env0 server_one) = Return None"
proof -
  have r: "running server_one" by code_simp
  have l: "Players server_one = [hd (Players server_one)]" by code_simp
  have cf: "Server_ShutdownMessage (c server_one) = ''Server closed.''" by code_simp
  have li: "listener server_one =
    Some \<lparr>ErrorLog = Logger 0, ServerName = ''Dragonfly Server'', MaximumPlayers = 0,
          lclosed = False, incoming = []\<rparr>" by code_simp
  have l1: "map (\<lambda>pl. PlayerDisconnect pl ''<yellow>Server closed.'') (Players server_one)
    = [PlayerDisconnect (hd (Players server_one)) ''<yellow>Server closed.'']"
    by (subst l) simp
  show ?thesis
    using r Close_order [OF r, of env0] l1
    by (simp add: cf li env0_def)
qed

text \<open>C2 (amended): if binding the listener fails, \<open>Start\<close> and \<open>Run\<close> return that
  failure to the caller as an error, wrapped as \<open>listening on address failed: ...\<close>, and
  not as a panic; the accept loop is not started, and the channel and the registry are
  as before. The flag \<open>started\<close> was set before the bind and is not cleared: after the
  failed call the server reads as running, and another \<open>Start\<close> panics.\<close>

theorem bind_failure_returned:
  assumes "\<not> running s"
    and "mcdb_New env (World_Folder (c s)) = Inr prov"
    and "listener_Listen env ''raknet'' (Network_Address (c s)) = Some err"
  shows "fst (Start env now s) = Return (Some (''listening on address failed: '' @ err))
     \<and> Run env now s = Start env now s
     \<and> new_events s (snd (Start env now s)) =
         [Log InfoLevel ''Starting server...'',
          Log DebugLevel ''Loading world...'',
          WorldProvider prov,
          Log DebugLevel ''Loaded world '%v'.'',
          ListenerListen ''raknet'' (Network_Address (c s))]
     \<and> players (snd (Start env now s)) = players s
     \<and> p (snd (Start env now s)) = p s
     \<and> running (snd (Start env now s))
     \<and> fst (Start env now' (snd (Start env now s))) = Panic ''server already running''"
proof -
  have st: "Start env now s =
      (Return (Some (''listening on address failed: '' @ err)),
       s\<lparr>started := 1,
         world := world_Provider env prov (world s),
         startTime := now,
         listener := Some \<lparr>ErrorLog = log s, ServerName = Server_Name (c s),
                           MaximumPlayers = Server_MaximumPlayers (c s),
                           lclosed = False, incoming = []\<rparr>,
         trace := trace s @
           [Log InfoLevel ''Starting server...'',
            Log DebugLevel ''Loading world...'',
            WorldProvider prov,
            Log DebugLevel ''Loaded world '%v'.'',
            ListenerListen ''raknet'' (Network_Address (c s))]\<rparr>)"
    using assms
    by (simp add: Start_def loadWorld_def startListening_def Let_def emit_def)
  have rn: "Run env now s = Start env now s"
    using assms
    by (simp add: Run_def Start_def loadWorld_def startListening_def Let_def emit_def)
  have ru: "running (snd (Start env now s))"
    by (simp add: st running_def)
  have again: "fst (Start env now' (snd (Start env now s))) = Panic ''server already running''"
    using ru by (simp only: Start_when_running fst_conv)
  show ?thesis
    using ru again unfolding rn by (simp add: st new_events_def)
qed

theorem bind_failure_returned_witness:
  "\<not> running (New env_bind_fails (\<lambda>a. config0) None None)
   \<and> mcdb_New env_bind_fails (World_Folder (c (New env_bind_fails (\<lambda>a. config0) None None)))
       = Inr (Provider ''world'')
   \<and> listener_Listen env_bind_fails ''raknet''
        (Network_Address (c (New env_bind_fails (\<lambda>a. config0) None None)))
       = Some ''address already in use''
   \<and> fst (Start env_bind_fails 1000 (New env_bind_fails (\<lambda>a. config0) None None)) =
       Return (Some ''listening on address failed: address already in use'')
   \<and> fst (Run env_bind_fails 1000 (New env_bind_fails (\<lambda>a. config0) None None)) =
       Return (Some ''listening on address failed: address already in use'')
   \<and> running (snd (Start env_bind_fails 1000 (New env_bind_fails (\<lambda>a. config0) None None)))"
proof -
  let ?s = "New env_bind_fails (\<lambda>a. config0) None None"
  have h1: "\<not> running ?s" by code_simp
  have h2: "mcdb_New env_bind_fails (World_Folder (c ?s)) = Inr (Provider ''world'')"
    by code_simp
  have h3: "listener_Listen env_bind_fails ''raknet'' (Network_Address (c ?s))
      = Some ''address already in use''"
    by code_simp
  show ?thesis
    using h1 h2 h3 bind_failure_returned [OF h1 h2 h3, of 1000] by simp
qed

text \<open>C2 fails as stated: with a listener that cannot bind, \<open>Start\<close> and \<open>Run\<close> on a
  fresh server return the error, and the server, not running before, reads as running
  afterwards.\<close>

theorem bind_failure_counterexample:
  "\<not> running (New env_bind_fails (\<lambda>a. config0) None None)
   \<and> fst (Start env_bind_fails 1000 (New env_bind_fails (\<lambda>a. config0) None None)) =
       Return (Some ''listening on address failed: address already in use'')
   \<and> running (snd (Start env_bind_fails 1000 (New env_bind_fails (\<lambda>a. config0) None None)))
   \<and> fst (Run env_bind_fails 1000 (New env_bind_fails (\<lambda>a. config0) None None)) =
       Return (Some ''listening on address failed: address already in use'')
   \<and> running (snd (Run env_bind_fails 1000 (New env_bind_fails (\<lambda>a. config0) None None)))"
  by code_simp

text \<open>C3: the flag goes from not-running to running at most once and is never reset.
  A fresh server is not running; \<open>Start\<close> and \<open>Run\<close> on a server that is not running
  make it running; a server that is running is running after every call and after every
  sequence of calls; along any sequence of calls the answer of \<open>running\<close> changes at most
  once, and only in a \<open>Start\<close> or \<open>Run\<close> on a server that was not running. In
  particular a server is still running after \<open>Close\<close>, and a second \<open>Close\<close> does not
  panic as not running: it starts the shutdown sequence again.\<close>

theorem running_never_reset:
  "\<not> running (New env mem cp lp)
   \<and> (\<not> running s \<longrightarrow> running (snd (Start env now s)) \<and> running (snd (Run env now s)))
   \<and> (running s \<longrightarrow>
        running (exec env k s) \<and> running (execs env ks s) \<and> flag_changes env ks s = 0)
   \<and> flag_changes env ks s \<le> 1
   \<and> (running (exec env k s) \<noteq> running s \<longrightarrow>
        \<not> running s \<and> running (exec env k s)
        \<and> (\<exists>t. k = Call_Start t \<or> k = Call_Run t))
   \<and> (running s \<longrightarrow>
        running (snd (Close env s))
        \<and> fst (Close env (snd (Close env s))) \<noteq> Panic ''server not yet running''
        \<and> take 1 (new_events (snd (Close env s)) (snd (Close env (snd (Close env s))))) =
            [Log InfoLevel ''Server shutting down...''])"
proof -
  have fresh: "\<not> running (New env mem cp lp)"
    by (simp add: New_def running_def Let_def split: option.splits)
  have start: "\<not> running s \<longrightarrow>
      running (snd (Start env now s)) \<and> running (snd (Run env now s))"
    by (simp add: running_def Start_fields Run_fields)
  have keep: "running s \<longrightarrow>
      running (exec env k s) \<and> running (execs env ks s) \<and> flag_changes env ks s = 0"
    by (simp add: running_exec running_execs flag_changes_running)
  have change: "running (exec env k s) \<noteq> running s \<longrightarrow>
      \<not> running s \<and> running (exec env k s) \<and> (\<exists>t. k = Call_Start t \<or> k = Call_Run t)"
    using started_exec [of env k s] by (auto simp: running_def split: if_splits)
  have again: "running (snd (Close env s))
      \<and> fst (Close env (snd (Close env s))) \<noteq> Panic ''server not yet running''
      \<and> take 1 (new_events (snd (Close env s)) (snd (Close env (snd (Close env s))))) =
          [Log InfoLevel ''Server shutting down...'']"
    if r: "running s"
  proof -
    let ?s1 = "snd (Close env s)"
    have r1: "running ?s1"
      using r by (simp add: running_def Close_fields)
    have "fst (Close env ?s1) \<noteq> Panic ''server not yet running''"
      by (simp add: Close_running [OF r1] split: option.splits)
    moreover have "take 1 (new_events ?s1 (snd (Close env ?s1))) =
        [Log InfoLevel ''Server shutting down...'']"
      by (simp add: Close_running [OF r1] new_events_def split: option.splits)
    ultimately show ?thesis using r1 by simp
  qed
  show ?thesis
    using fresh start keep change again flag_changes_le [of env ks s] by blast
qed

theorem running_never_reset_witness:
  "running server_started
   \<and> running (exec env0 Call_Close server_started)
   \<and> running (execs env0 [Call_Close, Call_run, Call_Accept, Call_Close] server_started)
   \<and> flag_changes env0 [Call_Close, Call_run, Call_Accept, Call_Close] server_started = 0
   \<and> \<not> running server0
   \<and> running (exec env0 (Call_Start 1000) server0) \<noteq> running server0
   \<and> running (snd (Start env0 1000 server0))
   \<and> fst (Close env0 (snd (Close env0 server_started))) \<noteq> Panic ''server not yet running''"
proof -
  have r: "running server_started" by code_simp
  have n: "\<not> running server0" by code_simp
  have ch: "running (exec env0 (Call_Start 1000) server0) \<noteq> running server0" by code_simp
  note t1 = running_never_reset [where s = server_started and env = env0
      and k = Call_Close and ks = "[Call_Close, Call_run, Call_Accept, Call_Close]"]
  note t2 = running_never_reset [where s = server0 and env = env0
      and k = "Call_Start 1000" and now = 1000]
  show ?thesis
    using r n ch t1 t2 by blast
qed

text \<open>C4: \<open>Accept\<close> receives from the hand-off channel, stores the received player in
  the registry (in the source between \<open>Lock\<close> and \<open>Unlock\<close> of \<open>playerMutex\<close>) and
  returns that player with no error; on a closed channel it returns the closed-server
  error; and after \<open>Close\<close> every \<open>Accept\<close> is to return that error without blocking,
  as the comments of \<open>Accept\<close> and \<open>Close\<close> say too. The code does not do the last at
  two inputs. With a world whose \<open>Close\<close> fails, \<open>Close\<close> returns that error before it
  closes the listener: the listener stays open, the accept loop stays blocked in it, the
  channel stays open, and an \<open>Accept\<close> blocks, before and after the accept loop is
  scheduled. With a negotiated player waiting in the channel, \<open>Close\<close> succeeds, and an
  \<open>Accept\<close> right after it returns that player with no error, while the accept loop,
  if it runs first, panics the waiting sender by closing the channel. On the started
  server with nobody waiting and a world that closes, \<open>Accept\<close> returns the
  closed-server error once the accept loop has run.\<close>

theorem Accept_after_Close_diverges:
  "fst (Close env_world_fails server_started) = Return (Some ''disk full'')
   \<and> map_option lclosed (listener (snd (Close env_world_fails server_started))) = Some False
   \<and> fst (Accept (snd (Close env_world_fails server_started))) = Block
   \<and> fst (run (snd (Close env_world_fails server_started))) = Block
   \<and> fst (Accept (snd (run (snd (Close env_world_fails server_started))))) = Block
   \<and> fst (Close env0 server_pending) = Return None
   \<and> fst (Accept (snd (Close env0 server_pending))) =
       Return (Inr (hd (senders (players server_pending))))
   \<and> fst (run (snd (Close env0 server_pending))) = Panic ''send on closed channel''
   \<and> fst (Close env0 server_started) = Return None
   \<and> server_closed = snd (run (snd (Close env0 server_started)))
   \<and> fst (Accept server_closed) = Return (Inl ''server closed'')"
  by code_simp

text \<open>C5: \<open>Start\<close> and \<open>Run\<close> on a running server panic with
  \<open>server already running\<close>, and \<open>Close\<close> on a server that is not running panics with
  \<open>server not yet running\<close>; neither returns an error or goes on silently, and the
  server is left as it was.\<close>

theorem misuse_panics:
  "(running s \<longrightarrow>
      Start env now s = (Panic ''server already running'', s)
      \<and> Run env now s = (Panic ''server already running'', s))
   \<and> (\<not> running s \<longrightarrow> Close env s = (Panic ''server not yet running'', s))"
  by (simp add: Start_def Run_def Close_def)

theorem misuse_panics_witness:
  "running server_started
   \<and> Start env0 2000 server_started = (Panic ''server already running'', server_started)
   \<and> Run env0 2000 server_started = (Panic ''server already running'', server_started)
   \<and> \<not> running server0
   \<and> Close env0 server0 = (Panic ''server not yet running'', server0)"
proof -
  have r: "running server_started" by code_simp
  have n: "\<not> running server0" by code_simp
  show ?thesis
    using r n misuse_panics [of server_started env0 2000] misuse_panics [of server0 env0 2000]
    by blast
qed

text \<open>C6: \<open>MaxPlayerCount\<close> returns the configured maximum when it is not zero,
  whatever the registry holds; when the configured maximum is zero it returns
  \<open>PlayerCount() + 1\<close>, whatever the registry holds, which is more than the number of
  players present.\<close>

theorem MaxPlayerCount_spec:
  "(Server_MaximumPlayers (c s) \<noteq> 0 \<longrightarrow>
      MaxPlayerCount (s\<lparr>p := reg\<rparr>) = Server_MaximumPlayers (c s))
   \<and> (Server_MaximumPlayers (c s) = 0 \<longrightarrow>
      MaxPlayerCount (s\<lparr>p := reg\<rparr>) = PlayerCount (s\<lparr>p := reg\<rparr>) + 1
      \<and> PlayerCount (s\<lparr>p := reg\<rparr>) < MaxPlayerCount (s\<lparr>p := reg\<rparr>))"
  by (simp add: MaxPlayerCount_def PlayerCount_def)

theorem MaxPlayerCount_spec_witness:
  "Server_MaximumPlayers (c server_one) = 0
   \<and> PlayerCount (server_one\<lparr>p := p server_one\<rparr>) = 1
   \<and> MaxPlayerCount (server_one\<lparr>p := p server_one\<rparr>) = 2
   \<and> MaxPlayerCount (server_one\<lparr>p := []\<rparr>) = 1
   \<and> Server_MaximumPlayers (c (server_one\<lparr>c := config0\<lparr>Server_MaximumPlayers := 20\<rparr>\<rparr>)) \<noteq> 0
   \<and> MaxPlayerCount (server_one\<lparr>c := config0\<lparr>Server_MaximumPlayers := 20\<rparr>, p := []\<rparr>) = 20
   \<and> MaxPlayerCount
        (server_one\<lparr>c := config0\<lparr>Server_MaximumPlayers := 20\<rparr>, p := p server_one\<rparr>) = 20"
proof -
  let ?s20 = "server_one\<lparr>c := config0\<lparr>Server_MaximumPlayers := 20\<rparr>\<rparr>"
  have z: "Server_MaximumPlayers (c server_one) = 0" by code_simp
  have n: "PlayerCount (server_one\<lparr>p := p server_one\<rparr>) = 1" by code_simp
  have e: "PlayerCount (server_one\<lparr>p := []\<rparr>) = 0" by (simp add: PlayerCount_def)
  have t: "Server_MaximumPlayers (c ?s20) \<noteq> 0" by simp
  show ?thesis
    using z n e t MaxPlayerCount_spec [of server_one "p server_one"]
      MaxPlayerCount_spec [of server_one "[]"]
      MaxPlayerCount_spec [of ?s20 "[]"] MaxPlayerCount_spec [of ?s20 "p server_one"]
    by simp
qed

text \<open>C7: when the identity a connection declares does not parse, \<open>handleConn\<close> returns
  after closing the connection, with \<open>conn.Close()\<close> when the game-start negotiation
  succeeded and with \<open>listener.Disconnect\<close> when it had already failed; it sends nothing
  to the hand-off channel and builds no player, and the server is as before except for
  the log of these calls. No player of such a connection is ever in the registry,
  whatever is called on a server since its construction.\<close>

theorem handleConn_malformed_identity:
  assumes "uuid_Parse env (Identity conn) = Inl err"
  shows "fst (handleConn env conn s) = Return ()
     \<and> snd (handleConn env conn s) =
         s\<lparr>trace := trace s @ new_events s (snd (handleConn env conn s))\<rparr>
     \<and> new_events s (snd (handleConn env conn s)) =
         ConnStartGame conn (gameData env s)
           # (case conn_StartGame env conn (gameData env s) of
                None \<Rightarrow>
                  [ConnClose conn, Log WarnLevel ''connection %v has a malformed UUID ('%v')'']
              | Some e \<Rightarrow>
                  [ListenerDisconnect conn ''Connection timeout.'',
                   Log DebugLevel ''connection %v failed spawning: %v''])
     \<and> players (snd (handleConn env conn s)) = players s
     \<and> p (snd (handleConn env conn s)) = p s
     \<and> list_all (\<lambda>pl. conn_of pl \<noteq> conn) (Players (execs env ks (New env mem cp lp)))"
proof -
  have h: "handleConn env conn s =
      (Return (),
       s\<lparr>trace := trace s @
          ConnStartGame conn (gameData env s)
           # (case conn_StartGame env conn (gameData env s) of
                None \<Rightarrow>
                  [ConnClose conn, Log WarnLevel ''connection %v has a malformed UUID ('%v')'']
              | Some e \<Rightarrow>
                  [ListenerDisconnect conn ''Connection timeout.'',
                   Log DebugLevel ''connection %v failed spawning: %v''])\<rparr>)"
    using assms by (simp add: handleConn_def Let_def emit_def split: option.splits)
  have "parsed_identities env (execs env ks (New env mem cp lp))"
    by (intro parsed_identities_execs parsed_identities_New)
  then have "\<forall>pl \<in> set (Players (execs env ks (New env mem cp lp))).
      uuid_Parse env (Identity (conn_of pl)) = Inr (UUID pl)"
    unfolding parsed_identities_iff by blast
  then have never: "list_all (\<lambda>pl. conn_of pl \<noteq> conn) (Players (execs env ks (New env mem cp lp)))"
    using assms unfolding list_all_iff by auto
  show ?thesis
    using never by (simp add: h new_events_def)
qed

theorem handleConn_malformed_identity_witness:
  "uuid_Parse env0 (Identity conn_bad) = Inl ''invalid UUID format''
   \<and> fst (handleConn env0 conn_bad server_started) = Return ()
   \<and> new_events server_started (snd (handleConn env0 conn_bad server_started)) =
       [ConnStartGame conn_bad (gameData env0 server_started), ConnClose conn_bad,
        Log WarnLevel ''connection %v has a malformed UUID ('%v')'']
   \<and> players (snd (handleConn env0 conn_bad server_started)) = players server_started
   \<and> p (snd (handleConn env0 conn_bad server_started)) = p server_started
   \<and> map UUID (Players (execs env0
        [Call_Start 1000, Peer_arrives conn_bad, Peer_arrives conn0, Call_run,
         Call_handleConn conn_bad, Call_handleConn conn0, Call_Accept, Call_Accept]
        (New env0 (\<lambda>a. config0) None None))) = [7]
   \<and> list_all (\<lambda>pl. conn_of pl \<noteq> conn_bad) (Players (execs env0
        [Call_Start 1000, Peer_arrives conn_bad, Peer_arrives conn0, Call_run,
         Call_handleConn conn_bad, Call_handleConn conn0, Call_Accept, Call_Accept]
        (New env0 (\<lambda>a. config0) None None)))"
proof -
  have h: "uuid_Parse env0 (Identity conn_bad) = Inl ''invalid UUID format''"
    by code_simp
  have g: "conn_StartGame env0 conn_bad (gameData env0 server_started) = None"
    by (simp add: env0_def)
  have u: "map UUID (Players (execs env0
        [Call_Start 1000, Peer_arrives conn_bad, Peer_arrives conn0, Call_run,
         Call_handleConn conn_bad, Call_handleConn conn0, Call_Accept, Call_Accept]
        (New env0 (\<lambda>a. config0) None None))) = [7]"
    by code_simp
  note t = handleConn_malformed_identity [OF h, where s = server_started
      and mem = "\<lambda>a. config0" and cp = None and lp = None
      and ks = "[Call_Start 1000, Peer_arrives conn_bad, Peer_arrives conn0, Call_run,
         Call_handleConn conn_bad, Call_handleConn conn0, Call_Accept, Call_Accept]"]
  show ?thesis
    using h u t unfolding g by simp
qed

text \<open>C8: the player position of the game-start data and the position the player is
  built with are both the sum, by \<open>Add\<close>, of the world's spawn as a vector and the
  vector \<open>(0.5, 0, 0.5)\<close>, and when one connection is handled to its hand-off the two
  are the same vector.\<close>

theorem spawn_position_identical:
  "PlayerPosition (gameData env s) =
     Vec3_Add env (BlockPos_Vec3 env (Spawn (world s))) (0x3F000000, 0, 0x3F000000)
   \<and> player_pos (fst (createPlayer env uid conn s)) =
       Vec3_Add env (BlockPos_Vec3 env (Spawn (world s))) (0x3F000000, 0, 0x3F000000)
   \<and> (conn_StartGame env conn (gameData env s) = None \<longrightarrow>
      uuid_Parse env (Identity conn) = Inr uid \<longrightarrow>
      \<not> chan_closed (players s) \<longrightarrow>
        fst (handleConn env conn s) = Return ()
        \<and> hd (new_events s (snd (handleConn env conn s))) =
            ConnStartGame conn (gameData env s)
        \<and> senders (players (snd (handleConn env conn s))) =
            senders (players s) @ [last (senders (players (snd (handleConn env conn s))))]
        \<and> conn_of (last (senders (players (snd (handleConn env conn s))))) = conn
        \<and> player_pos (last (senders (players (snd (handleConn env conn s))))) =
            PlayerPosition (gameData env s))"
  by (simp add: gameData_def createPlayer_def handleConn_def chan_send_def Let_def
      blockCentre_def player_NewWithSession_def session_New_def conn_of_def
      new_events_def emit_def)

theorem spawn_position_identical_witness:
  "conn_StartGame env0 conn0 (gameData env0 server_started) = None
   \<and> uuid_Parse env0 (Identity conn0) = Inr 7
   \<and> \<not> chan_closed (players server_started)
   \<and> PlayerPosition (gameData env0 server_started) = (0x3F000000, 0x41F00000, 0x3F000000)
   \<and> player_pos (last (senders (players (snd (handleConn env0 conn0 server_started))))) =
       (0x3F000000, 0x41F00000, 0x3F000000)"
proof -
  have g: "conn_StartGame env0 conn0 (gameData env0 server_started) = None"
    by (simp add: env0_def)
  have u: "uuid_Parse env0 (Identity conn0) = Inr 7" by code_simp
  have o: "\<not> chan_closed (players server_started)" by code_simp
  have v: "PlayerPosition (gameData env0 server_started) = (0x3F000000, 0x41F00000, 0x3F000000)"
    by code_simp
  show ?thesis
    using g u o v spawn_position_identical [of env0 server_started 7 conn0] by simp
qed

text \<open>C9: every animation entry of the client data yields one animation, appended to
  the animations of the new skin in the order of the entries. Its type is chosen by the
  tag of the entry: the head, body-32x32 and body-128x128 tags of the protocol give the
  head, body-32x32 and body-128x128 types of the skin package, and every other tag gives
  the zero value of the animation type; no tag makes \<open>createSkin\<close> fail.\<close>

theorem createSkin_animations:
  "Animations (createSkin se data) =
     Animations (skin_New se (SkinImageWidth data) (SkinImageHeight data))
       @ map (createAnimation se) (AnimatedImageData data)
   \<and> createAnimation se a =
       (skin_NewAnimation se (ImageWidth a) (ImageHeight a) (animationType se (Type a)))
         \<lparr>FrameCount := int_of_float64 se (Frames a),
          anim_Pix := base64_DecodeString se (Image a)\<rparr>
   \<and> animationType se (protocol_SkinAnimationHead se) = skin_AnimationHead se
   \<and> (protocol_SkinAnimationBody32x32 se \<noteq> protocol_SkinAnimationHead se \<longrightarrow>
        animationType se (protocol_SkinAnimationBody32x32 se) = skin_AnimationBody32x32 se)
   \<and> (protocol_SkinAnimationBody128x128 se \<noteq> protocol_SkinAnimationHead se \<longrightarrow>
      protocol_SkinAnimationBody128x128 se \<noteq> protocol_SkinAnimationBody32x32 se \<longrightarrow>
        animationType se (protocol_SkinAnimationBody128x128 se) = skin_AnimationBody128x128 se)
   \<and> (tag \<noteq> protocol_SkinAnimationHead se \<longrightarrow>
      tag \<noteq> protocol_SkinAnimationBody32x32 se \<longrightarrow>
      tag \<noteq> protocol_SkinAnimationBody128x128 se \<longrightarrow> animationType se tag = 0)"
  by (simp add: createSkin_Animations createAnimation_def animationType_def Let_def)

theorem createSkin_animations_witness:
  "protocol_SkinAnimationBody32x32 skin_env0 \<noteq> protocol_SkinAnimationHead skin_env0
   \<and> protocol_SkinAnimationBody128x128 skin_env0 \<noteq> protocol_SkinAnimationHead skin_env0
   \<and> protocol_SkinAnimationBody128x128 skin_env0 \<noteq> protocol_SkinAnimationBody32x32 skin_env0
   \<and> 9 \<noteq> protocol_SkinAnimationHead skin_env0
   \<and> 9 \<noteq> protocol_SkinAnimationBody32x32 skin_env0
   \<and> 9 \<noteq> protocol_SkinAnimationBody128x128 skin_env0
   \<and> map Type (AnimatedImageData clientData0) = [2, 9, 3, 1]
   \<and> map anim_type (Animations (createSkin skin_env0 clientData0)) = [1, 0, 2, 0]
   \<and> map anim_w (Animations (createSkin skin_env0 clientData0)) = [32, 8, 128, 32]
   \<and> animationType skin_env0 9 = 0"
proof -
  have d: "protocol_SkinAnimationHead skin_env0 = 1"
    "protocol_SkinAnimationBody32x32 skin_env0 = 2"
    "protocol_SkinAnimationBody128x128 skin_env0 = 3"
    "skin_AnimationHead skin_env0 = 0"
    "skin_AnimationBody32x32 skin_env0 = 1"
    "skin_AnimationBody128x128 skin_env0 = 2"
    by (simp_all add: skin_env0_def)
  have n: "Animations (skin_New skin_env0 w h) = []" for w h
    by (simp add: skin_env0_def)
  have na: "skin_NewAnimation skin_env0 w h t =
      \<lparr>anim_w = w, anim_h = h, anim_type = t, FrameCount = 0, anim_Pix = []\<rparr>" for w h t
    by (simp add: skin_env0_def)
  note t = createSkin_animations [of skin_env0 clientData0 _ 9]
  have an: "Animations (createSkin skin_env0 clientData0) =
      map (createAnimation skin_env0) (AnimatedImageData clientData0)"
    using conjunct1 [OF t] by (simp add: n)
  have ca: "createAnimation skin_env0 a =
      \<lparr>anim_w = ImageWidth a, anim_h = ImageHeight a,
       anim_type = animationType skin_env0 (Type a),
       FrameCount = int_of_float64 skin_env0 (Frames a),
       anim_Pix = base64_DecodeString skin_env0 (Image a)\<rparr>" for a
    using createSkin_animations [of skin_env0 clientData0 a 9] by (simp add: na)
  have ty: "animationType skin_env0 1 = 0" "animationType skin_env0 2 = 1"
    "animationType skin_env0 3 = 2" "animationType skin_env0 9 = 0"
    using t d by simp_all
  have m: "AnimatedImageData clientData0 =
      [\<lparr>Image = ''QQ=='', ImageWidth = 32, ImageHeight = 32, Type = 2,
        Frames = 0x4000000000000000\<rparr>,
       \<lparr>Image = [], ImageWidth = 8, ImageHeight = 8, Type = 9, Frames = 0\<rparr>,
       \<lparr>Image = [], ImageWidth = 128, ImageHeight = 128, Type = 3, Frames = 0\<rparr>,
       \<lparr>Image = [], ImageWidth = 32, ImageHeight = 64, Type = 1, Frames = 0\<rparr>]"
    by (simp add: clientData0_def)
  have e: "map anim_type (Animations (createSkin skin_env0 clientData0)) = [1, 0, 2, 0]"
    "map anim_w (Animations (createSkin skin_env0 clientData0)) = [32, 8, 128, 32]"
    unfolding an m by (simp_all add: ca ty)
  show ?thesis
    unfolding e m by (simp add: d ty)
qed

text \<open>C10: a server built with a nil configuration has the default configuration, and
  one built with a nil logger has the logger that \<open>logrus.New()\<close> returns, while a
  logger that is passed is the one used. A configuration that is passed is copied into
  the server when it is built: a later assignment through the caller's pointer changes
  the caller's value and not the configuration of the server.\<close>

theorem New_config_and_logger:
  "c (New env mem None lp) = DefaultConfig env
   \<and> log (New env mem cp None) = logrus_New env
   \<and> log (New env mem cp (Some lg)) = lg
   \<and> c (New env mem (Some a) lp) = mem a
   \<and> fst (caller_store a v (mem, New env mem (Some a) lp)) a = v
   \<and> c (snd (caller_store a v (mem, New env mem (Some a) lp))) = mem a
   \<and> MaxPlayerCount (snd (caller_store a v (mem, New env mem (Some a) lp))) =
       MaxPlayerCount (New env mem (Some a) lp)"
  by (simp add: New_def caller_store_def Let_def split: option.splits)

end
